theory Spec2Isabelle
  imports Complex_Main "HOL-Library.Log_Nat"
begin

section \<open>Ticket inventory accounting of the event booking backend\<close>

text \<open>
  A shallow embedding of the three registration routes of
  \<^verbatim>\<open>src/routes/registrationRoutes.js\<close> (create, payment, cancel) and of the
  two event routes that change what those routes read (update, delete), over the
  Mongoose models \<^verbatim>\<open>Event\<close> and \<^verbatim>\<open>Registration\<close>.

  Conventions of the model.
  \<^item> A JavaScript \<^verbatim>\<open>Number\<close> is a finite double, given by its value, a rational
    number. The operators \<^verbatim>\<open>+\<close>, \<^verbatim>\<open>-\<close> and \<^verbatim>\<open>*\<close> round the exact result to
    the nearest double, ties to even; \<^verbatim>\<open><\<close> compares the values. The sign of zero
    is not kept (no operator of the routes tells \<open>-0\<close> from \<open>0\<close>). Results beyond
    the largest finite double, which JavaScript turns into \<^verbatim>\<open>Infinity\<close> and then
    \<^verbatim>\<open>NaN\<close>, are outside the model: rounding here does not overflow.
  \<^item> An \<^verbatim>\<open>ObjectId\<close> is a \<^typ>\<open>nat\<close>. A collection is a map from ids to documents.
  \<^item> Only the fields that the routes above read or write are kept: an event has its
    organizer, ticket tiers, attendee list and analytics; a registration has its
    event, user, ticket lines, amount, payment fields, status and QR code.
  \<^item> A handler is a function from the database to a response and the database
    after the request. Everything a handler awaits and that may reject (a write,
    the QR code library) is an input of the handler, in the record \<open>io\<close>; a
    rejection is caught by the handler's \<^verbatim>\<open>catch\<close> and answered with status 500.
  \<^item> The middleware \<^verbatim>\<open>protect\<close> and \<^verbatim>\<open>authorize\<close> has run: a handler
    receives the id (and, for the event routes, the role) of the authenticated user.
\<close>

subsection \<open>Numbers\<close>

type_synonym number = rat

text \<open>The power of two \<open>2 ^ k\<close> for an integer \<open>k\<close>.\<close>

definition pow2 :: "int \<Rightarrow> rat" where
  "pow2 k = (if 0 \<le> k then 2 ^ nat k else 1 / 2 ^ nat (- k))"

text \<open>
  The binary exponent of a rational \<open>x \<noteq> 0\<close>, that is the \<open>e\<close> with
  \<open>2 ^ e \<le> \<bar>x\<bar> < 2 ^ (e + 1)\<close>: for \<open>\<bar>x\<bar> = p / q\<close> it is the difference \<open>d\<close> of the bit
  lengths of \<open>p\<close> and \<open>q\<close>, or \<open>d - 1\<close>.
\<close>

definition expo :: "rat \<Rightarrow> int" where
  "expo x =
     (case quotient_of \<bar>x\<bar> of
        (p, q) \<Rightarrow>
          let d = bitlen p - bitlen q
          in if of_int q * pow2 d \<le> of_int p then d else d - 1)"

text \<open>Rounding to the nearest integer, a tie going to the even one.\<close>

definition roundEven :: "rat \<Rightarrow> int" where
  "roundEven y =
     (let f = \<lfloor>y\<rfloor>; r = y - of_int f
      in if r < 1 / 2 then f
         else if 1 / 2 < r then f + 1
         else if even f then f else f + 1)"

text \<open>
  Rounding to the nearest double: the significand has 53 bits, so the spacing of
  the doubles around \<open>x\<close> is \<open>2 ^ (e - 52)\<close> with \<open>e\<close> the exponent of \<open>x\<close>, and never
  less than \<open>2 ^ (- 1074)\<close>, the spacing of the subnormal numbers. The Number that a
  decimal literal of a request body denotes is the rounding of its value.
\<close>

definition rnd :: "rat \<Rightarrow> number" where
  "rnd x =
     (if x = 0 then 0
      else let u = pow2 (max (expo x - 52) (- 1074))
           in of_int (roundEven (x / u)) * u)"

text \<open>The operators \<^verbatim>\<open>+\<close>, \<^verbatim>\<open>-\<close> and \<^verbatim>\<open>*\<close> on Numbers.\<close>

definition jsAdd :: "number \<Rightarrow> number \<Rightarrow> number" where
  "jsAdd a b = rnd (a + b)"

definition jsSub :: "number \<Rightarrow> number \<Rightarrow> number" where
  "jsSub a b = rnd (a - b)"

definition jsMul :: "number \<Rightarrow> number \<Rightarrow> number" where
  "jsMul a b = rnd (a * b)"

subsection \<open>Documents\<close>

type_synonym objectId = nat

text \<open>\<^verbatim>\<open>ticketTypeSchema\<close> of \<^verbatim>\<open>models/Event.js\<close>.\<close>

record ticketType =
  name :: string
  price :: number
  quantity :: number
  sold :: number

record analytics =
  views :: number
  totalTicketsSold :: number
  totalRevenue :: number

text \<open>\<^verbatim>\<open>eventSchema\<close>, restricted to the fields the ledger touches.\<close>

record event =
  organizer :: objectId
  ticketTypes :: "ticketType list"
  attendees :: "objectId list"
  analytics :: analytics

text \<open>\<^verbatim>\<open>ticketSchema\<close> of the Registration model: one purchased line.\<close>

record ticket =
  ticketType :: string
  price :: number
  quantity :: number

datatype paymentStatus = Pending | Completed | Failed | Refunded

datatype status = Active | Cancelled | Transferred

text \<open>\<^verbatim>\<open>registrationSchema\<close>; the defaults are \<open>Pending\<close> and \<open>Active\<close>.\<close>

record registration =
  event :: objectId
  user :: objectId
  tickets :: "ticket list"
  totalAmount :: number
  paymentStatus :: paymentStatus
  paymentIntentId :: "string option"
  transactionId :: "string option"
  status :: status
  qrCode :: "string option"

text \<open>One element of \<^verbatim>\<open>req.body.tickets\<close> of the create route.\<close>

record ticketReq =
  ticketType :: string
  quantity :: number

text \<open>The two collections.\<close>

record db =
  events :: "objectId \<rightharpoonup> event"
  registrations :: "objectId \<rightharpoonup> registration"

subsection \<open>Responses and the environment of a request\<close>

text \<open>
  A response is its HTTP status with what the ledger's callers can tell apart: the
  message of an error, or the registration sent back. \<open>ServerError\<close> is the 500 of
  a \<^verbatim>\<open>catch\<close> block.
\<close>

datatype response =
    Created registration
  | OkRegistration registration
  | OkMessage string
  | OkEvent event
  | BadRequest string
  | Forbidden string
  | NotFound string
  | ServerError

text \<open>
  What the awaited calls of one request do: the id the driver gives a created
  document, whether \<^verbatim>\<open>Registration.create\<close>, \<^verbatim>\<open>registration.save\<close> and the event
  write succeed, and the data URL of \<^verbatim>\<open>QRCode.toDataURL\<close> (\<open>None\<close> when it rejects).
\<close>

record io =
  freshId :: objectId
  createOk :: bool
  qrResult :: "string option"
  regSaveOk :: bool
  eventSaveOk :: bool

subsection \<open>Create registration: \<^verbatim>\<open>POST /api/registrations\<close>\<close>

text \<open>
  The loop of lines 21--31: for each requested line, find the tier by name, answer
  400 when there is none or when \<^verbatim>\<open>quantity - sold < ticket.quantity\<close>, and add
  \<^verbatim>\<open>price * ticket.quantity\<close> to the running total otherwise. It returns at the
  first line that fails.
\<close>

fun priceTickets :: "ticketType list \<Rightarrow> ticketReq list \<Rightarrow> number \<Rightarrow> response + number" where
  "priceTickets tts [] amount = Inr amount"
| "priceTickets tts (t # ts) amount =
     (case find (\<lambda>tt. name tt = ticketReq.ticketType t) tts of
        None \<Rightarrow> Inl (BadRequest (''Invalid ticket type: '' @ ticketReq.ticketType t))
      | Some tt \<Rightarrow>
          if jsSub (ticketType.quantity tt) (sold tt) < ticketReq.quantity t
          then Inl (BadRequest (''Not enough tickets available for '' @ ticketReq.ticketType t))
          else priceTickets tts ts
                 (jsAdd amount (jsMul (ticketType.price tt) (ticketReq.quantity t))))"

text \<open>
  The \<^verbatim>\<open>tickets.map\<close> of lines 37--41: the snapshot of each line with the tier's
  price. Reading \<^verbatim>\<open>.price\<close> of a failed \<^verbatim>\<open>find\<close> throws, which is \<open>None\<close> here.
\<close>

fun snapshot :: "ticketType list \<Rightarrow> ticketReq list \<Rightarrow> ticket list option" where
  "snapshot tts [] = Some []"
| "snapshot tts (t # ts) =
     (case find (\<lambda>tt. name tt = ticketReq.ticketType t) tts of
        None \<Rightarrow> None
      | Some tt \<Rightarrow>
          (case snapshot tts ts of
             None \<Rightarrow> None
           | Some rest \<Rightarrow>
               Some (\<lparr>ticket.ticketType = ticketReq.ticketType t,
                      price = ticketType.price tt,
                      quantity = ticketReq.quantity t\<rparr> # rest)))"

text \<open>
  The validators of \<^verbatim>\<open>ticketSchema\<close> that a line with a name and two Numbers can
  fail: the type name is required (an empty string is rejected) and the quantity
  has \<^verbatim>\<open>min: 1\<close>.
\<close>

definition validTicket :: "ticket \<Rightarrow> bool" where
  "validTicket t = (ticket.ticketType t \<noteq> [] \<and> 1 \<le> ticket.quantity t)"

text \<open>
  The handler. \<^verbatim>\<open>Registration.create\<close> rejects when a validator fails, when the
  write fails, or when the id is taken (a duplicate key); the registration is then
  saved a second time with its QR code. The event is read and never written.
\<close>

definition post_registrations ::
  "io \<Rightarrow> db \<Rightarrow> objectId \<Rightarrow> objectId \<Rightarrow> ticketReq list \<Rightarrow> response \<times> db" where
  "post_registrations env s uid eventId tks =
     (case events s eventId of
        None \<Rightarrow> (NotFound ''Event not found'', s)
      | Some ev \<Rightarrow>
          (case priceTickets (ticketTypes ev) tks 0 of
             Inl resp \<Rightarrow> (resp, s)
           | Inr amount \<Rightarrow>
               (case snapshot (ticketTypes ev) tks of
                  None \<Rightarrow> (ServerError, s)
                | Some lines \<Rightarrow>
                    let reg = \<lparr>event = eventId, user = uid, tickets = lines,
                               totalAmount = amount, paymentStatus = Pending,
                               paymentIntentId = None, transactionId = None,
                               status = Active, qrCode = None\<rparr>
                    in if createOk env \<and> list_all validTicket lines
                          \<and> registrations s (freshId env) = None
                       then
                         let s1 = s\<lparr>registrations := (registrations s)(freshId env \<mapsto> reg)\<rparr>
                         in (case qrResult env of
                               None \<Rightarrow> (ServerError, s1)
                             | Some url \<Rightarrow>
                                 if regSaveOk env
                                 then (Created (reg\<lparr>qrCode := Some url\<rparr>),
                                       s1\<lparr>registrations :=
                                            (registrations s1)(freshId env \<mapsto> reg\<lparr>qrCode := Some url\<rparr>)\<rparr>)
                                 else (ServerError, s1))
                       else (ServerError, s))))"

subsection \<open>Payment and cancellation\<close>

text \<open>
  \<^verbatim>\<open>const tt = event.ticketTypes.find(p); if (tt) { tt.sold = ... }\<close>: the first
  element that satisfies \<open>p\<close> is changed in place, and nothing is when there is none.
\<close>

fun mutateFirst :: "('a \<Rightarrow> bool) \<Rightarrow> ('a \<Rightarrow> 'a) \<Rightarrow> 'a list \<Rightarrow> 'a list" where
  "mutateFirst p f [] = []"
| "mutateFirst p f (x # xs) = (if p x then f x # xs else x # mutateFirst p f xs)"

text \<open>The loop of lines 138--143: \<^verbatim>\<open>ticketType.sold += ticket.quantity\<close>.\<close>

fun incrementSold :: "ticket list \<Rightarrow> ticketType list \<Rightarrow> ticketType list" where
  "incrementSold [] tts = tts"
| "incrementSold (t # ts) tts =
     incrementSold ts
       (mutateFirst (\<lambda>tt. name tt = ticket.ticketType t)
          (\<lambda>tt. tt\<lparr>sold := jsAdd (sold tt) (ticket.quantity t)\<rparr>) tts)"

text \<open>The loop of lines 184--189: \<^verbatim>\<open>ticketType.sold -= ticket.quantity\<close>.\<close>

fun decrementSold :: "ticket list \<Rightarrow> ticketType list \<Rightarrow> ticketType list" where
  "decrementSold [] tts = tts"
| "decrementSold (t # ts) tts =
     decrementSold ts
       (mutateFirst (\<lambda>tt. name tt = ticket.ticketType t)
          (\<lambda>tt. tt\<lparr>sold := jsSub (sold tt) (ticket.quantity t)\<rparr>) tts)"

text \<open>\<^verbatim>\<open>registration.tickets.reduce((sum, t) => sum + t.quantity, 0)\<close>.\<close>

definition totalTickets :: "ticket list \<Rightarrow> number" where
  "totalTickets ts = foldl (\<lambda>sum t. jsAdd sum (ticket.quantity t)) 0 ts"

text \<open>
  \<^verbatim>\<open>PUT /api/registrations/:id/payment\<close>. The registration is marked completed
  and saved; then the event is loaded, its analytics, attendee list and tier
  counters are increased, and it is saved. A missing event makes
  \<^verbatim>\<open>event.analytics\<close> throw after the registration was saved.
\<close>

definition put_payment ::
  "io \<Rightarrow> db \<Rightarrow> objectId \<Rightarrow> objectId \<Rightarrow> string option \<Rightarrow> string option \<Rightarrow> response \<times> db" where
  "put_payment env s rid uid intentId txId =
     (case registrations s rid of
        None \<Rightarrow> (NotFound ''Registration not found'', s)
      | Some reg0 \<Rightarrow>
          if user reg0 \<noteq> uid then (Forbidden ''Not authorized'', s)
          else
            let reg = reg0\<lparr>paymentStatus := Completed, paymentIntentId := intentId,
                           transactionId := txId\<rparr>
            in if regSaveOk env
               then
                 let s1 = s\<lparr>registrations := (registrations s)(rid \<mapsto> reg)\<rparr>
                 in (case events s1 (event reg) of
                       None \<Rightarrow> (ServerError, s1)
                     | Some ev \<Rightarrow>
                         let ev' = ev\<lparr>analytics := (analytics ev)
                                        \<lparr>totalTicketsSold :=
                                           jsAdd (totalTicketsSold (analytics ev))
                                                 (totalTickets (tickets reg)),
                                         totalRevenue :=
                                           jsAdd (totalRevenue (analytics ev)) (totalAmount reg)\<rparr>,
                                      attendees := attendees ev @ [rid],
                                      ticketTypes := incrementSold (tickets reg) (ticketTypes ev)\<rparr>
                         in if eventSaveOk env
                            then (OkRegistration reg,
                                  s1\<lparr>events := (events s1)(event reg \<mapsto> ev')\<rparr>)
                            else (ServerError, s1))
               else (ServerError, s))"

text \<open>
  \<^verbatim>\<open>PUT /api/registrations/:id/cancel\<close>. An already cancelled registration is
  answered with 400. Otherwise the registration is marked cancelled and saved; then
  the event is loaded, its analytics and tier counters are decreased, the
  registration is filtered out of the attendee list, and the event is saved.
\<close>

definition put_cancel :: "io \<Rightarrow> db \<Rightarrow> objectId \<Rightarrow> objectId \<Rightarrow> response \<times> db" where
  "put_cancel env s rid uid =
     (case registrations s rid of
        None \<Rightarrow> (NotFound ''Registration not found'', s)
      | Some reg0 \<Rightarrow>
          if user reg0 \<noteq> uid then (Forbidden ''Not authorized'', s)
          else if status reg0 = Cancelled
          then (BadRequest ''Registration already cancelled'', s)
          else
            let reg = reg0\<lparr>status := Cancelled\<rparr>
            in if regSaveOk env
               then
                 let s1 = s\<lparr>registrations := (registrations s)(rid \<mapsto> reg)\<rparr>
                 in (case events s1 (event reg) of
                       None \<Rightarrow> (ServerError, s1)
                     | Some ev \<Rightarrow>
                         let ev' = ev\<lparr>analytics := (analytics ev)
                                        \<lparr>totalTicketsSold :=
                                           jsSub (totalTicketsSold (analytics ev))
                                                 (totalTickets (tickets reg)),
                                         totalRevenue :=
                                           jsSub (totalRevenue (analytics ev)) (totalAmount reg)\<rparr>,
                                      attendees := filter (\<lambda>a. a \<noteq> rid) (attendees ev),
                                      ticketTypes := decrementSold (tickets reg) (ticketTypes ev)\<rparr>
                         in if eventSaveOk env
                            then (OkMessage ''Registration cancelled successfully'',
                                  s1\<lparr>events := (events s1)(event reg \<mapsto> ev')\<rparr>)
                            else (ServerError, s1))
               else (ServerError, s))"

subsection \<open>The event routes that change what the ledger reads\<close>

text \<open>
  The validators of \<^verbatim>\<open>ticketTypeSchema\<close> that \<^verbatim>\<open>runValidators: true\<close> applies to
  an update: the name is required, price and quantity have \<^verbatim>\<open>min: 0\<close>; \<^verbatim>\<open>sold\<close>
  has no validator.
\<close>

definition validTicketType :: "ticketType \<Rightarrow> bool" where
  "validTicketType tt = (name tt \<noteq> [] \<and> 0 \<le> ticketType.price tt \<and> 0 \<le> ticketType.quantity tt)"

text \<open>
  \<^verbatim>\<open>PUT /api/events/:id\<close>, with \<^verbatim>\<open>req.body\<close> restricted to its \<^verbatim>\<open>ticketTypes\<close>
  (\<open>None\<close> when the body has none): the organizer of the event, or an admin,
  replaces the tiers through \<^verbatim>\<open>Event.findByIdAndUpdate\<close>.
\<close>

definition put_event ::
  "io \<Rightarrow> db \<Rightarrow> objectId \<Rightarrow> objectId \<Rightarrow> string \<Rightarrow> ticketType list option \<Rightarrow> response \<times> db" where
  "put_event env s eventId uid role body =
     (case events s eventId of
        None \<Rightarrow> (NotFound ''Event not found'', s)
      | Some ev \<Rightarrow>
          if organizer ev \<noteq> uid \<and> role \<noteq> ''admin'' then (Forbidden ''Not authorized'', s)
          else
            (case body of
               None \<Rightarrow> if eventSaveOk env then (OkEvent ev, s) else (ServerError, s)
             | Some tts \<Rightarrow>
                 if eventSaveOk env \<and> list_all validTicketType tts
                 then (OkEvent (ev\<lparr>ticketTypes := tts\<rparr>),
                       s\<lparr>events := (events s)(eventId \<mapsto> ev\<lparr>ticketTypes := tts\<rparr>)\<rparr>)
                 else (ServerError, s)))"

text \<open>\<^verbatim>\<open>DELETE /api/events/:id\<close>.\<close>

definition delete_event :: "io \<Rightarrow> db \<Rightarrow> objectId \<Rightarrow> objectId \<Rightarrow> string \<Rightarrow> response \<times> db" where
  "delete_event env s eventId uid role =
     (case events s eventId of
        None \<Rightarrow> (NotFound ''Event not found'', s)
      | Some ev \<Rightarrow>
          if organizer ev \<noteq> uid \<and> role \<noteq> ''admin'' then (Forbidden ''Not authorized'', s)
          else if eventSaveOk env
          then (OkMessage ''Event removed'', s\<lparr>events := (events s)(eventId := None)\<rparr>)
          else (ServerError, s))"

subsection \<open>Sequences of requests\<close>

datatype request =
    PostRegistration objectId objectId "ticketReq list"
  | PutPayment objectId objectId "string option" "string option"
  | PutCancel objectId objectId
  | PutEvent objectId objectId string "ticketType list option"
  | DeleteEvent objectId objectId string

fun handle :: "io \<Rightarrow> db \<Rightarrow> request \<Rightarrow> response \<times> db" where
  "handle env s (PostRegistration uid eventId tks) = post_registrations env s uid eventId tks"
| "handle env s (PutPayment rid uid intentId txId) = put_payment env s rid uid intentId txId"
| "handle env s (PutCancel rid uid) = put_cancel env s rid uid"
| "handle env s (PutEvent eventId uid role body) = put_event env s eventId uid role body"
| "handle env s (DeleteEvent eventId uid role) = delete_event env s eventId uid role"

text \<open>The requests are served one after the other; each comes with its environment.\<close>

fun run :: "db \<Rightarrow> (io \<times> request) list \<Rightarrow> db" where
  "run s [] = s"
| "run s ((env, rq) # rqs) = run (snd (handle env s rq)) rqs"

text \<open>The requests of the ledger proper: reserve, commit and release.\<close>

fun ledgerRequest :: "request \<Rightarrow> bool" where
  "ledgerRequest (PostRegistration uid eventId tks) = True"
| "ledgerRequest (PutPayment rid uid intentId txId) = True"
| "ledgerRequest (PutCancel rid uid) = True"
| "ledgerRequest (PutEvent eventId uid role body) = False"
| "ledgerRequest (DeleteEvent eventId uid role) = False"

subsection \<open>A small database for the scenarios\<close>

text \<open>An environment in which every awaited call succeeds; \<open>n\<close> is the id of a created document.\<close>

definition okIo :: "objectId \<Rightarrow> io" where
  "okIo n = \<lparr>freshId = n, createOk = True, qrResult = Some ''data:image/png;base64'',
             regSaveOk = True, eventSaveOk = True\<rparr>"

text \<open>
  Event 1 of organizer 9 has one tier, VIP at price 50 with capacity \<open>q\<close>, nothing
  sold, no attendee and analytics at zero; there is no registration.
\<close>

definition shop :: "number \<Rightarrow> db" where
  "shop q =
     \<lparr>events = [1 \<mapsto> \<lparr>organizer = 9,
                       ticketTypes = [\<lparr>name = ''VIP'', price = 50, quantity = q, sold = 0\<rparr>],
                       attendees = [],
                       analytics = \<lparr>views = 0, totalTicketsSold = 0, totalRevenue = 0\<rparr>\<rparr>],
      registrations = Map.empty\<rparr>"

definition vip :: "number \<Rightarrow> ticketReq" where
  "vip n = \<lparr>ticketReq.ticketType = ''VIP'', quantity = n\<rparr>"

text \<open>The same event with the VIP tier at price \<open>p\<close>.\<close>

definition shopAt :: "number \<Rightarrow> number \<Rightarrow> db" where
  "shopAt p q =
     \<lparr>events = [1 \<mapsto> \<lparr>organizer = 9,
                       ticketTypes = [\<lparr>name = ''VIP'', price = p, quantity = q, sold = 0\<rparr>],
                       attendees = [],
                       analytics = \<lparr>views = 0, totalTicketsSold = 0, totalRevenue = 0\<rparr>\<rparr>],
      registrations = Map.empty\<rparr>"

text \<open>The total amount stored for registration \<open>rid\<close> and the revenue of event 1.\<close>

definition amountOf :: "db \<Rightarrow> objectId \<Rightarrow> number option" where
  "amountOf s rid = map_option totalAmount (registrations s rid)"

definition revenueOf :: "db \<Rightarrow> number option" where
  "revenueOf s = map_option (\<lambda>ev. totalRevenue (analytics ev)) (events s 1)"

text \<open>The counters of event 1 that the claims speak of.\<close>

definition soldOf :: "db \<Rightarrow> number list" where
  "soldOf s = (case events s 1 of None \<Rightarrow> [] | Some ev \<Rightarrow> map sold (ticketTypes ev))"

definition analyticsOf :: "db \<Rightarrow> (number \<times> number) option" where
  "analyticsOf s =
     map_option (\<lambda>ev. (totalTicketsSold (analytics ev), totalRevenue (analytics ev))) (events s 1)"

definition attendeesOf :: "db \<Rightarrow> objectId list" where
  "attendeesOf s = (case events s 1 of None \<Rightarrow> [] | Some ev \<Rightarrow> attendees ev)"

subsection \<open>Observations used in the statements\<close>

text \<open>The HTTP status of a response, as the handlers set it.\<close>

fun statusCode :: "response \<Rightarrow> nat" where
  "statusCode (Created reg) = 201"
| "statusCode (OkRegistration reg) = 200"
| "statusCode (OkMessage msg) = 200"
| "statusCode (OkEvent ev) = 200"
| "statusCode (BadRequest msg) = 400"
| "statusCode (Forbidden msg) = 403"
| "statusCode (NotFound msg) = 404"
| "statusCode ServerError = 500"

text \<open>Every tier of an event has \<open>0 \<le> sold \<le> quantity\<close>.\<close>

definition withinCapacity :: "event \<Rightarrow> bool" where
  "withinCapacity ev =
     list_all (\<lambda>tt. 0 \<le> sold tt \<and> sold tt \<le> ticketType.quantity tt) (ticketTypes ev)"


text \<open>
  The sum over the lines of a registration of unit price times quantity, in exact
  arithmetic, and the same sum as line 30 of the create route accumulates it: in
  line order, each product and each partial sum rounded to a double.
\<close>

definition linesAmount :: "ticket list \<Rightarrow> rat" where
  "linesAmount ts = sum_list (map (\<lambda>t. ticket.price t * ticket.quantity t) ts)"

definition accumulated :: "ticket list \<Rightarrow> number" where
  "accumulated ts =
     foldl (\<lambda>amount t. jsAdd amount (jsMul (ticket.price t) (ticket.quantity t))) 0 ts"

text \<open>
  Whole numbers, and the largest magnitude \<open>2 ^ 53\<close> up to which every whole number
  is a double.
\<close>

definition whole :: "rat \<Rightarrow> bool" where
  "whole x = (of_int \<lfloor>x\<rfloor> = x)"

definition maxSafe :: rat where
  "maxSafe = 9007199254740992"




text \<open>
  The prices and quantities of the lines are whole and not negative, and their
  exact sum is at most \<open>2 ^ 53\<close>.
\<close>

definition wholeLines :: "ticket list \<Rightarrow> bool" where
  "wholeLines ts =
     (list_all (\<lambda>t. whole (ticket.price t) \<and> 0 \<le> ticket.price t
                    \<and> whole (ticket.quantity t) \<and> 0 \<le> ticket.quantity t) ts
      \<and> linesAmount ts \<le> maxSafe)"

text \<open>A line of a registration carries the price of the tier of its name.\<close>

definition pricedFrom :: "ticketType list \<Rightarrow> ticket \<Rightarrow> bool" where
  "pricedFrom tts t =
     (case find (\<lambda>tt. name tt = ticket.ticketType t) tts of
        None \<Rightarrow> False
      | Some tt \<Rightarrow> ticket.price t = ticketType.price tt)"

section \<open>Properties\<close>

subsection \<open>Rounding\<close>

text \<open>
  Every whole number of magnitude at most \<open>2 ^ 53\<close> is a double, so that sums,
  differences and products with such a result are exact.
\<close>

lemma roundEven_of_int: "roundEven (of_int z) = z"
  by (simp add: roundEven_def)

lemma expo_of_int:
  assumes "n \<noteq> 0" and "\<bar>n\<bar> \<le> 9007199254740992"
  shows "expo (of_int n) \<le> 53 \<and> (expo (of_int n) = 53 \<longrightarrow> \<bar>n\<bar> = 9007199254740992)"
proof -
  have q: "quotient_of \<bar>of_int n :: rat\<bar> = (\<bar>n\<bar>, 1)"
    by (metis of_int_abs quotient_of_rat_of_int)
  have "\<bar>n\<bar> < 2 ^ nat 54" using assms(2) by simp
  then have b: "bitlen \<bar>n\<bar> \<le> 54" by (simp add: bitlen_le_iff_power)
  have one: "bitlen 1 = 1" by (simp add: bitlen_alt_def)
  show ?thesis
  proof (cases "bitlen \<bar>n\<bar> = 54 \<and> (pow2 53 \<le> of_int \<bar>n\<bar>)")
    case True
    then have "(9007199254740992 :: rat) \<le> of_int \<bar>n\<bar>" by (simp add: pow2_def)
    then have "9007199254740992 \<le> \<bar>n\<bar>" by linarith
    with assms(2) have "\<bar>n\<bar> = 9007199254740992" by simp
    with True show ?thesis by (simp add: expo_def q one Let_def)
  next
    case False
    with b show ?thesis by (auto simp add: expo_def q one Let_def)
  qed
qed

lemma rnd_whole:
  assumes "x \<in> \<int>" and "\<bar>x\<bar> \<le> 9007199254740992"
  shows "rnd x = x"
proof (cases "x = 0")
  case True
  then show ?thesis by (simp add: rnd_def)
next
  case False
  from assms(1) obtain n where x: "x = of_int n" by (auto elim: Ints_cases)
  with False have n0: "n \<noteq> 0" by simp
  from assms(2) x have nb: "\<bar>n\<bar> \<le> 9007199254740992" by (simp flip: of_int_abs)
  define k where "k = max (expo x - 52) (- 1074)"
  from expo_of_int[OF n0 nb] x have e: "expo x \<le> 53" "expo x = 53 \<longrightarrow> \<bar>n\<bar> = 9007199254740992"
    by simp_all
  have r: "rnd x = of_int (roundEven (x / pow2 k)) * pow2 k"
    using False by (simp add: rnd_def k_def Let_def)
  show ?thesis
  proof (cases "k \<le> 0")
    case True
    have u: "pow2 k = 1 / 2 ^ nat (- k)"
      using True by (cases "k = 0") (simp_all add: pow2_def)
    have "x / pow2 k = of_int (n * 2 ^ nat (- k))" by (simp add: u x)
    then have "roundEven (x / pow2 k) = n * 2 ^ nat (- k)" by (simp only: roundEven_of_int)
    with r have "rnd x = of_int (n * 2 ^ nat (- k)) * pow2 k" by (simp only:)
    also have "\<dots> = x" by (simp add: u x)
    finally show ?thesis .
  next
    case False
    with e(1) have k1: "k = 1" by (simp add: k_def)
    with e have "expo x = 53" by (simp add: k_def)
    with e(2) have "\<bar>n\<bar> = 9007199254740992" by simp
    then consider "n = 9007199254740992" | "n = - 9007199254740992" by linarith
    then show ?thesis
    proof cases
      case 1
      have "x / pow2 k = of_int 4503599627370496" by (simp add: x 1 k1 pow2_def)
      then have "roundEven (x / pow2 k) = 4503599627370496" by (simp only: roundEven_of_int)
      with r have "rnd x = of_int 4503599627370496 * pow2 k" by (simp only:)
      also have "\<dots> = x" by (simp add: x 1 k1 pow2_def)
      finally show ?thesis .
    next
      case 2
      have "x / pow2 k = of_int (- 4503599627370496)" by (simp add: x 2 k1 pow2_def)
      then have "roundEven (x / pow2 k) = - 4503599627370496" by (simp only: roundEven_of_int)
      with r have "rnd x = of_int (- 4503599627370496) * pow2 k" by (simp only:)
      also have "\<dots> = x" by (simp add: x 2 k1 pow2_def)
      finally show ?thesis .
    qed
  qed
qed

lemma whole_iff: "whole x \<longleftrightarrow> x \<in> \<int>"
  by (auto simp: whole_def Ints_def)

lemma whole_add: "whole a \<Longrightarrow> whole b \<Longrightarrow> whole (a + b)"
  by (simp add: whole_iff)


lemma whole_mult: "whole a \<Longrightarrow> whole b \<Longrightarrow> whole (a * b)"
  by (simp add: whole_iff)

lemma rnd_safe: "whole x \<Longrightarrow> \<bar>x\<bar> \<le> maxSafe \<Longrightarrow> rnd x = x"
  by (simp add: rnd_whole whole_iff maxSafe_def)

lemma jsAdd_exact: "whole a \<Longrightarrow> whole b \<Longrightarrow> \<bar>a + b\<bar> \<le> maxSafe \<Longrightarrow> jsAdd a b = a + b"
  by (simp add: jsAdd_def rnd_safe whole_add)


lemma jsMul_exact: "whole a \<Longrightarrow> whole b \<Longrightarrow> \<bar>a * b\<bar> \<le> maxSafe \<Longrightarrow> jsMul a b = a * b"
  by (simp add: jsMul_def rnd_safe whole_mult)


text \<open>
  The exponent is the binary exponent, and rounding moves a number by at most half
  the spacing of the doubles around it.
\<close>

lemma pow2_powi: "pow2 k = 2 powi k"
  by (simp add: pow2_def power_int_def field_simps)

lemma pow2_pos: "0 < pow2 k"
  by (simp add: pow2_powi)

lemma pow2_add: "pow2 (a + b) = pow2 a * pow2 b"
  by (simp add: pow2_powi power_int_add)

lemma pow2_bitlen:
  assumes "0 < n"
  shows "pow2 (bitlen n - 1) \<le> of_int n" and "of_int n < pow2 (bitlen n)"
proof -
  from bitlen_bounds[OF assms] have a: "2 ^ nat (bitlen n - 1) \<le> n" and b: "n < 2 ^ nat (bitlen n)"
    by simp_all
  from assms have p: "1 \<le> bitlen n" by (auto simp: bitlen_alt_def)
  have "(of_int (2 ^ nat (bitlen n - 1)) :: rat) \<le> of_int n" using a by (simp only: of_int_le_iff)
  then show "pow2 (bitlen n - 1) \<le> of_int n" using p by (simp add: pow2_def)
  have "(of_int n :: rat) < of_int (2 ^ nat (bitlen n))" using b by (simp only: of_int_less_iff)
  then show "of_int n < pow2 (bitlen n)" using p by (simp add: pow2_def)
qed

lemma expo_bounds:
  assumes "x \<noteq> 0"
  shows "pow2 (expo x) \<le> \<bar>x\<bar> \<and> \<bar>x\<bar> < pow2 (expo x + 1)"
proof -
  obtain p q where pq: "quotient_of \<bar>x\<bar> = (p, q)" by (cases "quotient_of \<bar>x\<bar>")
  then have q: "0 < q" by (rule quotient_of_denom_pos)
  from pq have x: "\<bar>x\<bar> = of_int p / of_int q" by (simp add: quotient_of_div)
  have "0 < \<bar>x\<bar>" using assms by simp
  then have "0 < (of_int p :: rat) / of_int q" by (simp only: x)
  with q have p: "0 < p" by (simp add: zero_less_divide_iff)
  define d where "d = bitlen p - bitlen q"
  note bp = pow2_bitlen[OF p] and bq = pow2_bitlen[OF q]
  have qpos: "(0::rat) < of_int q" using q by simp
  have up: "of_int p < of_int q * pow2 (d + 1)"
  proof -
    have "pow2 (bitlen p) = pow2 (bitlen q - 1) * pow2 (d + 1)"
      by (simp add: d_def flip: pow2_add)
    also have "\<dots> \<le> of_int q * pow2 (d + 1)"
      using bq(1) pow2_pos[of "d + 1"] by (simp add: mult_right_mono)
    finally show ?thesis using bp(2) by simp
  qed
  have lo: "of_int q * pow2 (d - 1) \<le> of_int p"
  proof -
    have "of_int q * pow2 (d - 1) \<le> pow2 (bitlen q) * pow2 (d - 1)"
      using bq(2) pow2_pos[of "d - 1"] by (simp add: mult_right_mono)
    also have "\<dots> = pow2 (bitlen p - 1)" by (simp add: d_def flip: pow2_add)
    finally show ?thesis using bp(1) by simp
  qed
  show ?thesis
  proof (cases "of_int q * pow2 d \<le> (of_int p :: rat)")
    case True
    then have e: "expo x = d" by (simp add: expo_def pq d_def Let_def)
    from True up qpos show ?thesis
      by (simp add: e x pos_le_divide_eq pos_divide_less_eq mult.commute)
  next
    case False
    then have e: "expo x = d - 1" by (simp add: expo_def pq d_def Let_def)
    from False lo qpos show ?thesis
      by (simp add: e x pos_le_divide_eq pos_divide_less_eq mult.commute)
  qed
qed

lemma roundEven_near: "\<bar>of_int (roundEven y) - y\<bar> \<le> 1 / 2"
proof -
  define f where "f = \<lfloor>y\<rfloor>"
  have b: "of_int f \<le> y" "y < of_int f + 1" unfolding f_def by linarith+
  consider "y - of_int f < 1 / 2" | "1 / 2 < y - of_int f" | "y - of_int f = 1 / 2" by linarith
  then show ?thesis
  proof cases
    case 1
    then have "roundEven y = f" by (simp add: roundEven_def f_def)
    with 1 b show ?thesis by simp
  next
    case 2
    then have "roundEven y = f + 1" by (simp add: roundEven_def f_def)
    with 2 b show ?thesis by simp
  next
    case 3
    then have "roundEven y = f \<or> roundEven y = f + 1"
      by (simp add: roundEven_def f_def Let_def)
    with 3 show ?thesis by auto
  qed
qed

lemma rnd_near:
  assumes "x \<noteq> 0"
  shows "\<bar>rnd x - x\<bar> \<le> pow2 (max (expo x - 52) (- 1074)) / 2"
proof -
  define u where "u = pow2 (max (expo x - 52) (- 1074))"
  have u: "0 < u" by (simp add: u_def pow2_pos)
  have "rnd x - x = (of_int (roundEven (x / u)) - x / u) * u"
    using assms u by (simp add: rnd_def u_def Let_def field_simps)
  then have "\<bar>rnd x - x\<bar> = \<bar>of_int (roundEven (x / u)) - x / u\<bar> * u"
    using u by (simp add: abs_mult)
  also have "\<dots> \<le> 1 / 2 * u"
    using roundEven_near[of "x / u"] u by (intro mult_right_mono) simp_all
  finally show ?thesis by (simp add: u_def)
qed

subsection \<open>The loops over the tiers\<close>






















lemma linesAmount_nonneg:
  "list_all (\<lambda>t. 0 \<le> ticket.price t \<and> 0 \<le> ticket.quantity t) ts \<Longrightarrow> 0 \<le> linesAmount ts"
  by (induction ts) (simp_all add: linesAmount_def)

lemma foldl_amount_exact:
  "list_all (\<lambda>t. whole (ticket.price t) \<and> 0 \<le> ticket.price t
                \<and> whole (ticket.quantity t) \<and> 0 \<le> ticket.quantity t) ts \<Longrightarrow>
   whole a \<Longrightarrow> 0 \<le> a \<Longrightarrow> a + linesAmount ts \<le> maxSafe \<Longrightarrow>
     foldl (\<lambda>amount t. jsAdd amount (jsMul (ticket.price t) (ticket.quantity t))) a ts
       = a + linesAmount ts"
proof (induction ts arbitrary: a)
  case Nil
  show ?case by (simp add: linesAmount_def)
next
  case (Cons t ts)
  let ?p = "ticket.price t * ticket.quantity t"
  from Cons.prems(1) have t: "whole (ticket.price t)" "0 \<le> ticket.price t"
      "whole (ticket.quantity t)" "0 \<le> ticket.quantity t"
    and w: "list_all (\<lambda>t. whole (ticket.price t) \<and> 0 \<le> ticket.price t
                \<and> whole (ticket.quantity t) \<and> 0 \<le> ticket.quantity t) ts"
    by simp_all
  from w have "list_all (\<lambda>t. 0 \<le> ticket.price t \<and> 0 \<le> ticket.quantity t) ts"
    by (induction ts) simp_all
  then have s: "0 \<le> linesAmount ts" by (rule linesAmount_nonneg)
  have p0: "0 \<le> ?p" using t(2,4) by simp
  have l: "linesAmount (t # ts) = ?p + linesAmount ts" by (simp add: linesAmount_def)
  have "\<bar>?p\<bar> \<le> maxSafe" using Cons.prems(3,4) s p0 l by linarith
  then have m: "jsMul (ticket.price t) (ticket.quantity t) = ?p"
    using t(1,3) by (simp add: jsMul_exact)
  have "\<bar>a + ?p\<bar> \<le> maxSafe" using Cons.prems(3,4) s p0 l by linarith
  then have e: "jsAdd a ?p = a + ?p"
    using Cons.prems(2) t(1,3) by (simp add: jsAdd_exact whole_mult)
  have "foldl (\<lambda>amount t. jsAdd amount (jsMul (ticket.price t) (ticket.quantity t))) (a + ?p) ts
      = a + ?p + linesAmount ts"
    using Cons.prems(2,3,4) p0 t l by (intro Cons.IH[OF w]) (simp_all add: whole_add whole_mult)
  with m e l show ?case by simp
qed

lemma accumulated_exact: "wholeLines ts \<Longrightarrow> accumulated ts = linesAmount ts"
  using foldl_amount_exact[of ts 0] by (simp add: accumulated_def wholeLines_def whole_def)



lemma priceTickets_error:
  "priceTickets tts tks a = Inl resp \<Longrightarrow> \<exists>msg. resp = BadRequest msg"
  by (induction tks arbitrary: a) (auto split: option.splits if_splits)

lemma priceTickets_snapshot:
  "priceTickets tts tks a = Inr amount \<Longrightarrow>
     \<exists>lines. snapshot tts tks = Some lines
       \<and> amount = foldl (\<lambda>amount t. jsAdd amount (jsMul (ticket.price t) (ticket.quantity t))) a lines
       \<and> list_all (pricedFrom tts) lines
       \<and> map ticket.ticketType lines = map ticketReq.ticketType tks
       \<and> map ticket.quantity lines = map ticketReq.quantity tks"
proof (induction tks arbitrary: a)
  case Nil
  then show ?case by simp
next
  case (Cons t tks)
  from Cons.prems obtain tt where
    f: "find (\<lambda>tt. name tt = ticketReq.ticketType t) tts = Some tt"
    and r: "priceTickets tts tks (jsAdd a (jsMul (ticketType.price tt) (ticketReq.quantity t))) = Inr amount"
    by (auto split: option.splits if_splits)
  from Cons.IH[OF r] obtain lines where
    l: "snapshot tts tks = Some lines"
      "amount = foldl (\<lambda>amount t. jsAdd amount (jsMul (ticket.price t) (ticket.quantity t)))
                  (jsAdd a (jsMul (ticketType.price tt) (ticketReq.quantity t))) lines"
      "list_all (pricedFrom tts) lines"
      "map ticket.ticketType lines = map ticketReq.ticketType tks"
      "map ticket.quantity lines = map ticketReq.quantity tks"
    by blast
  have "pricedFrom tts \<lparr>ticket.ticketType = ticketReq.ticketType t,
      price = ticketType.price tt, quantity = ticketReq.quantity t\<rparr>"
    using f by (simp add: pricedFrom_def)
  with f l show ?case by simp
qed

subsection \<open>The handlers, path by path\<close>



lemma put_payment_reg_fails: "\<not> regSaveOk env \<Longrightarrow> snd (put_payment env s rid uid intentId txId) = s"
  by (simp add: put_payment_def Let_def split: option.splits)

lemma put_cancel_reg_fails: "\<not> regSaveOk env \<Longrightarrow> snd (put_cancel env s rid uid) = s"
  by (simp add: put_cancel_def Let_def split: option.splits)

lemma put_payment_event_changed:
  "events (snd (put_payment env s rid uid intentId txId)) = events s \<or>
     statusCode (fst (put_payment env s rid uid intentId txId)) = 200
     \<and> map_option paymentStatus (registrations (snd (put_payment env s rid uid intentId txId)) rid)
         = Some Completed"
  by (simp add: put_payment_def Let_def split: option.splits)

lemma put_cancel_event_changed:
  "events (snd (put_cancel env s rid uid)) = events s \<or>
     statusCode (fst (put_cancel env s rid uid)) = 200
     \<and> map_option status (registrations (snd (put_cancel env s rid uid)) rid) = Some Cancelled"
  by (simp add: put_cancel_def Let_def split: option.splits)

lemma put_payment_event_fails:
  assumes "registrations s rid = Some reg" "user reg = uid" "regSaveOk env"
    "\<not> eventSaveOk env \<or> events s (event reg) = None"
  shows "put_payment env s rid uid intentId txId =
     (ServerError, s\<lparr>registrations := (registrations s)
        (rid \<mapsto> reg\<lparr>paymentStatus := Completed, paymentIntentId := intentId, transactionId := txId\<rparr>)\<rparr>)"
  using assms by (auto simp add: put_payment_def Let_def split: option.splits)

lemma put_cancel_event_fails:
  assumes "registrations s rid = Some reg" "user reg = uid" "status reg \<noteq> Cancelled" "regSaveOk env"
    "\<not> eventSaveOk env \<or> events s (event reg) = None"
  shows "put_cancel env s rid uid =
     (ServerError, s\<lparr>registrations := (registrations s)(rid \<mapsto> reg\<lparr>status := Cancelled\<rparr>)\<rparr>)"
  using assms by (auto simp add: put_cancel_def Let_def split: option.splits)

lemma post_registrations_stored:
  assumes ev: "events s eventId = Some ev"
    and new: "registrations s (freshId env) = None"
    and stored: "registrations (snd (post_registrations env s uid eventId tks)) (freshId env) = Some reg"
  shows "totalAmount reg = accumulated (tickets reg)
    \<and> list_all (pricedFrom (ticketTypes ev)) (tickets reg)
    \<and> map ticket.ticketType (tickets reg) = map ticketReq.ticketType tks
    \<and> map ticket.quantity (tickets reg) = map ticketReq.quantity tks"
proof (cases "priceTickets (ticketTypes ev) tks 0")
  case (Inl resp)
  with ev new stored show ?thesis by (simp add: post_registrations_def)
next
  case (Inr amount)
  from priceTickets_snapshot[OF Inr] obtain lines where
    l: "snapshot (ticketTypes ev) tks = Some lines" "amount = accumulated lines"
      "list_all (pricedFrom (ticketTypes ev)) lines"
      "map ticket.ticketType lines = map ticketReq.ticketType tks"
      "map ticket.quantity lines = map ticketReq.quantity tks"
    by (auto simp: accumulated_def)
  from ev new stored Inr l show ?thesis
    by (auto simp: post_registrations_def Let_def split: option.splits if_splits)
qed

lemma handle_keeps_amount:
  assumes "registrations s rid = Some reg"
  shows "\<exists>reg'. registrations (snd (handle env s rq)) rid = Some reg'
     \<and> totalAmount reg' = totalAmount reg \<and> tickets reg' = tickets reg"
proof (cases rq)
  case (PostRegistration uid eventId tks)
  with assms show ?thesis
    by (auto simp: post_registrations_def Let_def split: option.splits sum.splits)
next
  case (PutPayment r uid intentId txId)
  with assms show ?thesis
    by (auto simp: put_payment_def Let_def split: option.splits)
next
  case (PutCancel r uid)
  with assms show ?thesis
    by (auto simp: put_cancel_def Let_def split: option.splits)
next
  case (PutEvent eventId uid role body)
  with assms show ?thesis
    by (auto simp: put_event_def split: option.splits)
next
  case (DeleteEvent eventId uid role)
  with assms show ?thesis
    by (auto simp: delete_event_def split: option.splits)
qed

lemma run_keeps_amount:
  "registrations s rid = Some reg \<Longrightarrow>
     \<exists>reg'. registrations (run s rqs) rid = Some reg'
       \<and> totalAmount reg' = totalAmount reg \<and> tickets reg' = tickets reg"
proof (induction rqs arbitrary: s reg)
  case Nil
  then show ?case by simp
next
  case (Cons a rqs)
  obtain env rq where a: "a = (env, rq)" by (cases a)
  from handle_keeps_amount[OF Cons.prems, of env rq] obtain reg1 where
    r1: "registrations (snd (handle env s rq)) rid = Some reg1"
    "totalAmount reg1 = totalAmount reg" "tickets reg1 = tickets reg" by blast
  from Cons.IH[OF r1(1)] r1(2,3) a show ?case by simp
qed

text \<open>The definitions that a scenario on the small database unfolds.\<close>

lemmas scenario_defs =
  shop_def shopAt_def okIo_def vip_def soldOf_def analyticsOf_def attendeesOf_def
  amountOf_def revenueOf_def withinCapacity_def
  post_registrations_def put_payment_def put_cancel_def put_event_def
  validTicket_def validTicketType_def totalTickets_def Let_def
  jsAdd_def jsSub_def jsMul_def rnd_whole

subsection \<open>Payment of a registration that is already completed\<close>

text \<open>
  Claim C1: the payment route rejects a registration whose payment status is
  already completed and then leaves the counters and the attendee list unchanged.

  The handler has no such check: it never reads \<^verbatim>\<open>paymentStatus\<close>. On the
  scenario database, three VIP tickets are reserved by user 7 and paid; the second
  payment request for the same registration is answered with status 200, the tier
  counter goes from 3 to 6, the analytics from (3, 150) to (6, 300), and the
  registration is in the attendee list twice.
\<close>

theorem payment_twice_counts_twice:
  "map_option paymentStatus
     (registrations (run (shop 10) [(okIo 1, PostRegistration 7 1 [vip 3]),
                                    (okIo 0, PutPayment 1 7 None None)]) 1) = Some Completed
   \<and> soldOf (run (shop 10) [(okIo 1, PostRegistration 7 1 [vip 3]),
                            (okIo 0, PutPayment 1 7 None None)]) = [3]
   \<and> analyticsOf (run (shop 10) [(okIo 1, PostRegistration 7 1 [vip 3]),
                                 (okIo 0, PutPayment 1 7 None None)]) = Some (3, 150)
   \<and> statusCode (fst (put_payment (okIo 0)
        (run (shop 10) [(okIo 1, PostRegistration 7 1 [vip 3]),
                        (okIo 0, PutPayment 1 7 None None)]) 1 7 None None)) = 200
   \<and> soldOf (snd (put_payment (okIo 0)
        (run (shop 10) [(okIo 1, PostRegistration 7 1 [vip 3]),
                        (okIo 0, PutPayment 1 7 None None)]) 1 7 None None)) = [6]
   \<and> analyticsOf (snd (put_payment (okIo 0)
        (run (shop 10) [(okIo 1, PostRegistration 7 1 [vip 3]),
                        (okIo 0, PutPayment 1 7 None None)]) 1 7 None None)) = Some (6, 300)
   \<and> attendeesOf (snd (put_payment (okIo 0)
        (run (shop 10) [(okIo 1, PostRegistration 7 1 [vip 3]),
                        (okIo 0, PutPayment 1 7 None None)]) 1 7 None None)) = [1, 1]"
  by (simp add: scenario_defs)

subsection \<open>Cancellation of a registration that was never paid\<close>

text \<open>
  Claim C2: cancellation decreases the counters only when the payment status is
  completed, and otherwise only marks the registration cancelled.

  The handler decreases the counters whatever the payment status is. On the
  scenario database, three VIP tickets are reserved and never paid; the
  cancellation is answered with status 200, the registration becomes cancelled, and
  the tier counter goes from 0 to -3 and the analytics from (0, 0) to (-3, -150).
\<close>

theorem cancel_pending_decrements:
  "map_option paymentStatus
     (registrations (run (shop 10) [(okIo 1, PostRegistration 7 1 [vip 3])]) 1) = Some Pending
   \<and> soldOf (run (shop 10) [(okIo 1, PostRegistration 7 1 [vip 3])]) = [0]
   \<and> analyticsOf (run (shop 10) [(okIo 1, PostRegistration 7 1 [vip 3])]) = Some (0, 0)
   \<and> statusCode (fst (put_cancel (okIo 0)
        (run (shop 10) [(okIo 1, PostRegistration 7 1 [vip 3])]) 1 7)) = 200
   \<and> map_option status (registrations (snd (put_cancel (okIo 0)
        (run (shop 10) [(okIo 1, PostRegistration 7 1 [vip 3])]) 1 7)) 1) = Some Cancelled
   \<and> soldOf (snd (put_cancel (okIo 0)
        (run (shop 10) [(okIo 1, PostRegistration 7 1 [vip 3])]) 1 7)) = [- 3]
   \<and> analyticsOf (snd (put_cancel (okIo 0)
        (run (shop 10) [(okIo 1, PostRegistration 7 1 [vip 3])]) 1 7)) = Some (- 3, - 150)"
  by (simp add: scenario_defs)

subsection \<open>The bounds of the tier counter\<close>

text \<open>
  Claim C3: after any sequence of reserve, commit and release requests every tier
  has \<open>0 \<le> sold \<le> quantity\<close>.

  Both bounds fail on a tier of capacity 1 with nothing sold. Reserving one ticket
  and cancelling the unpaid registration leaves \<open>sold = -1\<close>. Two registrations
  of one ticket each both pass the availability check, since a reservation holds
  nothing, and paying both leaves \<open>sold = 2\<close>.
\<close>

theorem capacity_bounds_broken:
  "map_option withinCapacity (events (shop 1) 1) = Some True
   \<and> list_all ledgerRequest
        [PostRegistration 7 1 [vip 1], PutCancel 1 7, PutPayment 1 7 None None,
         PostRegistration 8 1 [vip 1], PutPayment 2 8 None None]
   \<and> soldOf (run (shop 1) [(okIo 1, PostRegistration 7 1 [vip 1]),
                           (okIo 0, PutCancel 1 7)]) = [- 1]
   \<and> map_option withinCapacity
        (events (run (shop 1) [(okIo 1, PostRegistration 7 1 [vip 1]),
                               (okIo 0, PutCancel 1 7)]) 1) = Some False
   \<and> soldOf (run (shop 1) [(okIo 1, PostRegistration 7 1 [vip 1]),
                           (okIo 2, PostRegistration 8 1 [vip 1]),
                           (okIo 0, PutPayment 1 7 None None),
                           (okIo 0, PutPayment 2 8 None None)]) = [2]
   \<and> map_option withinCapacity
        (events (run (shop 1) [(okIo 1, PostRegistration 7 1 [vip 1]),
                               (okIo 2, PostRegistration 8 1 [vip 1]),
                               (okIo 0, PutPayment 1 7 None None),
                               (okIo 0, PutPayment 2 8 None None)]) 1) = Some False"
  by (simp add: scenario_defs)

subsection \<open>Payment followed by cancellation\<close>




subsection \<open>The two writes of payment and cancellation\<close>

text \<open>
  Claim C5, as stated: payment and cancellation update the registration and the
  event as one atomic unit, so that no state has one of them written without the
  other. This fails: the handlers await \<^verbatim>\<open>registration.save()\<close> and only then
  load, change and save the event. When the event write is rejected, the payment
  request ends with status 500, the registration is completed, and the event has
  sold 0 and analytics (0, 0); likewise a cancellation leaves a cancelled
  registration with the event still at sold 3.
\<close>

theorem split_write_possible:
  "statusCode (fst (put_payment ((okIo 0)\<lparr>eventSaveOk := False\<rparr>)
       (run (shop 10) [(okIo 1, PostRegistration 7 1 [vip 3])]) 1 7 None None)) = 500
   \<and> map_option paymentStatus (registrations (snd (put_payment ((okIo 0)\<lparr>eventSaveOk := False\<rparr>)
       (run (shop 10) [(okIo 1, PostRegistration 7 1 [vip 3])]) 1 7 None None)) 1) = Some Completed
   \<and> soldOf (snd (put_payment ((okIo 0)\<lparr>eventSaveOk := False\<rparr>)
       (run (shop 10) [(okIo 1, PostRegistration 7 1 [vip 3])]) 1 7 None None)) = [0]
   \<and> analyticsOf (snd (put_payment ((okIo 0)\<lparr>eventSaveOk := False\<rparr>)
       (run (shop 10) [(okIo 1, PostRegistration 7 1 [vip 3])]) 1 7 None None)) = Some (0, 0)
   \<and> attendeesOf (snd (put_payment ((okIo 0)\<lparr>eventSaveOk := False\<rparr>)
       (run (shop 10) [(okIo 1, PostRegistration 7 1 [vip 3])]) 1 7 None None)) = []
   \<and> statusCode (fst (put_cancel ((okIo 0)\<lparr>eventSaveOk := False\<rparr>)
       (run (shop 10) [(okIo 1, PostRegistration 7 1 [vip 3]),
                       (okIo 0, PutPayment 1 7 None None)]) 1 7)) = 500
   \<and> map_option status (registrations (snd (put_cancel ((okIo 0)\<lparr>eventSaveOk := False\<rparr>)
       (run (shop 10) [(okIo 1, PostRegistration 7 1 [vip 3]),
                       (okIo 0, PutPayment 1 7 None None)]) 1 7)) 1) = Some Cancelled
   \<and> soldOf (snd (put_cancel ((okIo 0)\<lparr>eventSaveOk := False\<rparr>)
       (run (shop 10) [(okIo 1, PostRegistration 7 1 [vip 3]),
                       (okIo 0, PutPayment 1 7 None None)]) 1 7)) = [3]
   \<and> analyticsOf (snd (put_cancel ((okIo 0)\<lparr>eventSaveOk := False\<rparr>)
       (run (shop 10) [(okIo 1, PostRegistration 7 1 [vip 3]),
                       (okIo 0, PutPayment 1 7 None None)]) 1 7)) = Some (3, 150)"
  by (simp add: scenario_defs)

text \<open>
  Claim C5, amended: the two writes are made one after the other, the registration
  first. For a request of the registration's owner: when the registration write
  fails, nothing changes; when it succeeds and the event cannot be loaded or its
  write fails, the request is answered with status 500, the registration stays
  marked (completed by payment, cancelled by cancellation) and the event
  collection is unchanged. The event collection changes only in a request that is
  answered with status 200 and has marked the registration.
\<close>

theorem registration_saved_before_event:
  assumes "registrations s rid = Some reg" and "user reg = uid"
  shows "(\<not> regSaveOk env \<longrightarrow>
            snd (put_payment env s rid uid intentId txId) = s \<and> snd (put_cancel env s rid uid) = s)
    \<and> (regSaveOk env \<and> (\<not> eventSaveOk env \<or> events s (event reg) = None) \<longrightarrow>
          put_payment env s rid uid intentId txId =
            (ServerError, s\<lparr>registrations := (registrations s)
               (rid \<mapsto> reg\<lparr>paymentStatus := Completed, paymentIntentId := intentId,
                            transactionId := txId\<rparr>)\<rparr>))
    \<and> (regSaveOk env \<and> (\<not> eventSaveOk env \<or> events s (event reg) = None) \<and> status reg \<noteq> Cancelled \<longrightarrow>
          put_cancel env s rid uid =
            (ServerError, s\<lparr>registrations := (registrations s)(rid \<mapsto> reg\<lparr>status := Cancelled\<rparr>)\<rparr>))
    \<and> (events (snd (put_payment env s rid uid intentId txId)) \<noteq> events s \<longrightarrow>
          statusCode (fst (put_payment env s rid uid intentId txId)) = 200
          \<and> map_option paymentStatus
               (registrations (snd (put_payment env s rid uid intentId txId)) rid) = Some Completed)
    \<and> (events (snd (put_cancel env s rid uid)) \<noteq> events s \<longrightarrow>
          statusCode (fst (put_cancel env s rid uid)) = 200
          \<and> map_option status (registrations (snd (put_cancel env s rid uid)) rid) = Some Cancelled)"
  using assms put_payment_reg_fails[of env s rid uid intentId txId] put_cancel_reg_fails[of env s rid uid]
    put_payment_event_fails[of s rid reg uid env intentId txId] put_cancel_event_fails[of s rid reg uid env]
    put_payment_event_changed[of env s rid uid intentId txId] put_cancel_event_changed[of env s rid uid]
  by blast

theorem registration_saved_before_event_witness:
  "registrations (run (shop 10) [(okIo 1, PostRegistration 7 1 [vip 3])]) 1 \<noteq> None
   \<and> regSaveOk ((okIo 0)\<lparr>eventSaveOk := False\<rparr>)
   \<and> \<not> eventSaveOk ((okIo 0)\<lparr>eventSaveOk := False\<rparr>)
   \<and> fst (put_payment ((okIo 0)\<lparr>eventSaveOk := False\<rparr>)
        (run (shop 10) [(okIo 1, PostRegistration 7 1 [vip 3])]) 1 7 None None) = ServerError
   \<and> events (snd (put_payment ((okIo 0)\<lparr>eventSaveOk := False\<rparr>)
        (run (shop 10) [(okIo 1, PostRegistration 7 1 [vip 3])]) 1 7 None None))
      = events (run (shop 10) [(okIo 1, PostRegistration 7 1 [vip 3])])
   \<and> map_option paymentStatus (registrations (snd (put_payment ((okIo 0)\<lparr>eventSaveOk := False\<rparr>)
        (run (shop 10) [(okIo 1, PostRegistration 7 1 [vip 3])]) 1 7 None None)) 1) = Some Completed"
proof -
  define s where "s = run (shop 10) [(okIo 1, PostRegistration 7 1 [vip 3])]"
  define env where "env = (okIo 0)\<lparr>eventSaveOk := False\<rparr>"
  define reg where "reg = \<lparr>event = 1, user = 7,
      tickets = [\<lparr>ticket.ticketType = ''VIP'', price = 50, quantity = 3\<rparr>],
      totalAmount = 150, paymentStatus = Pending, paymentIntentId = None,
      transactionId = None, status = Active, qrCode = Some ''data:image/png;base64''\<rparr>"
  have h1: "registrations s 1 = Some reg" by (simp add: s_def reg_def scenario_defs)
  have h2: "user reg = 7" by (simp add: reg_def)
  have io: "regSaveOk env" "\<not> eventSaveOk env" by (simp_all add: env_def okIo_def)
  from registration_saved_before_event [OF h1 h2, of env None None] io
  have r: "put_payment env s 1 7 None None =
      (ServerError, s\<lparr>registrations := (registrations s)
          (1 \<mapsto> reg\<lparr>paymentStatus := Completed, paymentIntentId := None, transactionId := None\<rparr>)\<rparr>)"
    by blast
  have "fst (put_payment env s 1 7 None None) = ServerError"
    "events (snd (put_payment env s 1 7 None None)) = events s"
    "map_option paymentStatus (registrations (snd (put_payment env s 1 7 None None)) 1) = Some Completed"
    unfolding r by simp_all
  with h1 io show ?thesis unfolding s_def env_def by simp
qed

subsection \<open>Creating a registration does not write the event\<close>

text \<open>
  Claim C6: the create route never changes an event: whatever the request and
  whatever the outcome of its writes, the event collection after the request is
  the event collection before it, so no tier's \<open>sold\<close> and no analytics change.
\<close>

theorem reserve_leaves_events:
  "events (snd (post_registrations env s uid eventId tks)) = events s"
  by (simp add: post_registrations_def Let_def split: option.splits sum.splits)

subsection \<open>The checks of the create route\<close>



subsection \<open>The amount of a registration\<close>

text \<open>
  Claim C8, as stated: the total amount of a registration equals the sum over its
  lines of unit price times quantity. This fails where the product or the sum is
  no double: for three tickets at price \<open>2 ^ 53 - 1\<close> the create route answers
  201 and stores the amount 27021597764222972, while the sum over the stored line
  is 27021597764222973.
\<close>

theorem amount_is_rounded:
  "statusCode (fst (post_registrations (okIo 1) (shopAt 9007199254740991 10) 7 1 [vip 3])) = 201
   \<and> amountOf (snd (post_registrations (okIo 1) (shopAt 9007199254740991 10) 7 1 [vip 3])) 1
      = Some 27021597764222972
   \<and> map_option (\<lambda>reg. linesAmount (tickets reg))
        (registrations (snd (post_registrations (okIo 1) (shopAt 9007199254740991 10) 7 1 [vip 3])) 1)
      = Some 27021597764222973"
  by code_simp

text \<open>
  Claim C8, amended: a registration that the create route stores under a new id,
  whether the request is then answered with 201 or fails with 500 after the
  registration was created, has as its total amount what the route accumulates
  over its lines in order, each product of price and quantity and each partial sum
  rounded to a double; this is the exact sum of price times quantity when prices
  and quantities are whole and not negative and that sum is at most \<open>2 ^ 53\<close>.
  Its lines are the requested lines, each with the price that its tier has on the
  event at that moment. After any sequence of later requests (payments,
  cancellations, further registrations, edits of the event's tiers and prices,
  deletion of the event) the stored registration still has the same total amount
  and the same lines.
\<close>

theorem totalAmount_set_at_creation:
  assumes ev: "events s eventId = Some ev"
    and new: "registrations s (freshId env) = None"
    and stored: "registrations (snd (post_registrations env s uid eventId tks)) (freshId env) = Some reg"
  shows "totalAmount reg = accumulated (tickets reg)
    \<and> (wholeLines (tickets reg) \<longrightarrow> totalAmount reg = linesAmount (tickets reg))
    \<and> list_all (pricedFrom (ticketTypes ev)) (tickets reg)
    \<and> map ticket.ticketType (tickets reg) = map ticketReq.ticketType tks
    \<and> map ticket.quantity (tickets reg) = map ticketReq.quantity tks
    \<and> (\<forall>rqs. map_option totalAmount
               (registrations (run (snd (post_registrations env s uid eventId tks)) rqs) (freshId env))
             = Some (totalAmount reg))
    \<and> (\<forall>rqs. map_option tickets
               (registrations (run (snd (post_registrations env s uid eventId tks)) rqs) (freshId env))
             = Some (tickets reg))"
proof -
  note c = post_registrations_stored[OF assms]
  have x: "wholeLines (tickets reg) \<longrightarrow> totalAmount reg = linesAmount (tickets reg)"
    using c by (simp add: accumulated_exact)
  have "map_option totalAmount
          (registrations (run (snd (post_registrations env s uid eventId tks)) rqs) (freshId env))
        = Some (totalAmount reg)"
    and "map_option tickets
          (registrations (run (snd (post_registrations env s uid eventId tks)) rqs) (freshId env))
        = Some (tickets reg)" for rqs
    using run_keeps_amount[OF stored, of rqs] by auto
  with c x show ?thesis by simp
qed

text \<open>
  Three VIP tickets at price 50 are requested and the QR code library fails: the
  request is answered with 500, the registration is stored with amount 150, the
  sum of its line, and keeps it when the organizer raises the price to 80 and the
  registration is paid and cancelled.
\<close>

theorem totalAmount_set_at_creation_witness:
  "events (shop 10) 1 \<noteq> None
   \<and> registrations (shop 10) 1 = None
   \<and> statusCode (fst (post_registrations ((okIo 1)\<lparr>qrResult := None\<rparr>) (shop 10) 7 1 [vip 3])) = 500
   \<and> map_option (\<lambda>reg. wholeLines (tickets reg))
        (registrations (snd (post_registrations ((okIo 1)\<lparr>qrResult := None\<rparr>) (shop 10) 7 1 [vip 3])) 1)
      = Some True
   \<and> map_option totalAmount
        (registrations (snd (post_registrations ((okIo 1)\<lparr>qrResult := None\<rparr>) (shop 10) 7 1 [vip 3])) 1)
      = Some 150
   \<and> map_option (\<lambda>reg. linesAmount (tickets reg))
        (registrations (snd (post_registrations ((okIo 1)\<lparr>qrResult := None\<rparr>) (shop 10) 7 1 [vip 3])) 1)
      = Some 150
   \<and> map_option totalAmount
        (registrations
          (run (snd (post_registrations ((okIo 1)\<lparr>qrResult := None\<rparr>) (shop 10) 7 1 [vip 3]))
             [(okIo 0, PutEvent 1 9 ''organizer''
                 (Some [\<lparr>name = ''VIP'', price = 80, quantity = 10, sold = 0\<rparr>])),
              (okIo 0, PutPayment 1 7 None None),
              (okIo 0, PutCancel 1 7)]) 1) = Some 150"
proof -
  define env where "env = (okIo 1)\<lparr>qrResult := None\<rparr>"
  define reg where "reg = \<lparr>event = 1, user = 7,
      tickets = [\<lparr>ticket.ticketType = ''VIP'', price = 50, quantity = 3\<rparr>],
      totalAmount = 150, paymentStatus = Pending, paymentIntentId = None,
      transactionId = None, status = Active, qrCode = None\<rparr>"
  define ev where "ev = \<lparr>organizer = 9,
      ticketTypes = [\<lparr>name = ''VIP'', price = 50, quantity = 10, sold = 0\<rparr>],
      attendees = [], analytics = \<lparr>views = 0, totalTicketsSold = 0, totalRevenue = 0\<rparr>\<rparr>"
  define s' where "s' = snd (post_registrations env (shop 10) 7 1 [vip 3])"
  have f: "freshId env = 1" by (simp add: env_def okIo_def)
  have h1: "events (shop 10) 1 = Some ev" by (simp add: shop_def ev_def)
  have h2: "registrations (shop 10) (freshId env) = None" by (simp add: shop_def)
  have h3: "registrations (snd (post_registrations env (shop 10) 7 1 [vip 3])) (freshId env) = Some reg"
    by (simp add: env_def reg_def scenario_defs)
  have w: "wholeLines (tickets reg)"
    by (simp add: reg_def wholeLines_def linesAmount_def whole_def maxSafe_def)
  note t = totalAmount_set_at_creation [OF h1 h2 h3, unfolded f, folded s'_def]
  from t w have a: "totalAmount reg = linesAmount (tickets reg)" by blast
  from t have b: "map_option totalAmount (registrations (run s' rqs) 1) = Some (totalAmount reg)" for rqs
    by blast
  have r: "registrations s' 1 = Some reg" using h3 by (simp add: s'_def f)
  have v: "totalAmount reg = 150" by (simp add: reg_def)
  have st: "statusCode (fst (post_registrations env (shop 10) 7 1 [vip 3])) = 500"
    by (simp add: env_def scenario_defs)
  have e: "events (shop 10) 1 \<noteq> None" using h1 by simp
  have n: "registrations (shop 10) 1 = None" by (simp add: shop_def)
  have c1: "map_option (\<lambda>reg. wholeLines (tickets reg)) (registrations s' 1) = Some True"
    using r w by simp
  have c2: "map_option totalAmount (registrations s' 1) = Some 150" using r v by simp
  have c3: "map_option (\<lambda>reg. linesAmount (tickets reg)) (registrations s' 1) = Some 150"
    using r a v by simp
  have c4: "map_option totalAmount (registrations (run s' rqs) 1) = Some 150" for rqs
    using b v by simp
  show ?thesis unfolding env_def[symmetric] s'_def[symmetric] using e n st c1 c2 c3 c4 by blast
qed

subsection \<open>Two payments for the last unit\<close>

text \<open>
  Claim C9: of two payments for one-ticket registrations against a tier with one
  unit left, exactly one succeeds and the other is refused for lack of inventory.

  The payment route checks no availability and detects no conflict. Already when
  the two payments are served one after the other, both registrations having been
  created while the unit was free, both are answered with status 200 and the tier
  of capacity 1 ends with \<open>sold = 2\<close>.
\<close>

theorem last_unit_sold_twice:
  "soldOf (shop 1) = [0]
   \<and> statusCode (fst (post_registrations (okIo 1) (shop 1) 7 1 [vip 1])) = 201
   \<and> statusCode (fst (post_registrations (okIo 2)
        (run (shop 1) [(okIo 1, PostRegistration 7 1 [vip 1])]) 8 1 [vip 1])) = 201
   \<and> statusCode (fst (put_payment (okIo 0)
        (run (shop 1) [(okIo 1, PostRegistration 7 1 [vip 1]),
                       (okIo 2, PostRegistration 8 1 [vip 1])]) 1 7 None None)) = 200
   \<and> statusCode (fst (put_payment (okIo 0)
        (run (shop 1) [(okIo 1, PostRegistration 7 1 [vip 1]),
                       (okIo 2, PostRegistration 8 1 [vip 1]),
                       (okIo 0, PutPayment 1 7 None None)]) 2 8 None None)) = 200
   \<and> soldOf (run (shop 1) [(okIo 1, PostRegistration 7 1 [vip 1]),
                           (okIo 2, PostRegistration 8 1 [vip 1]),
                           (okIo 0, PutPayment 1 7 None None),
                           (okIo 0, PutPayment 2 8 None None)]) = [2]"
  by (simp add: scenario_defs)

subsection \<open>A line whose tier is gone\<close>



end
